theory Spec2Isabelle
  imports Main
begin

section \<open>GSTable: a table mapper over spreadsheet sheets\<close>

text \<open>
  The development embeds \<^verbatim>\<open>src/GSTable.js\<close>: the class \<^verbatim>\<open>GSTable\<close> binds the
  properties of its subclasses to the rows of a sheet of the active spreadsheet.

  JavaScript is dynamically typed, so the embedding has one type of values. An object is
  the list of its own properties in the order of their creation, together with the class
  that constructed it, if it is an entity; \<open>own_props\<close> lists the properties in the order
  of \<^verbatim>\<open>Object.getOwnPropertyNames\<close> and \<^verbatim>\<open>Object.keys\<close>. A column descriptor is a plain object
  with the properties \<^verbatim>\<open>_value\<close>, \<^verbatim>\<open>_type\<close>, \<^verbatim>\<open>_required\<close>, as the
  factories of \<^verbatim>\<open>COLUMN()\<close> build it. A \<^verbatim>\<open>Date\<close> is represented by its text
  (what \<^verbatim>\<open>String\<close> gives for it), numbers are integers, strings are ASCII. A class is its name and the properties that its constructor
  assigns, after \<^verbatim>\<open>super()\<close>, when it is called without arguments.

  Limits of the value model, none of which a theorem below relies on: inherited
  (prototype) properties and the properties of primitives read as \<^verbatim>\<open>undefined\<close>;
  objects are trees (no two properties share one descriptor); \<^verbatim>\<open>===\<close> on objects is
  structural; a class takes no property of its own; a number stands for the double of
  the same value, so it has no fraction and, beyond \<open>2\<^sup>5\<^sup>3\<close>, its text has all the
  digits of the integer where JavaScript writes the shortest digits that give the double.
\<close>

subsection \<open>Values\<close>

datatype jsval =
    Undef
  | Null
  | Str string
  | Num int
  | Bool bool
  | Date string
  | Obj "cls option" "(string \<times> jsval) list"
  | Class cls
and cls = Cls string "(string \<times> jsval) list"

datatype error = TypeError | Error string

fun cls_name :: "cls \<Rightarrow> string" where
  "cls_name (Cls n d) = n"

fun cls_decl :: "cls \<Rightarrow> (string \<times> jsval) list" where
  "cls_decl (Cls n d) = d"

text \<open>Truthiness, as \<^verbatim>\<open>||\<close>, \<^verbatim>\<open>&&\<close> and \<^verbatim>\<open>if\<close> test it.\<close>

fun truthy :: "jsval \<Rightarrow> bool" where
  "truthy Undef = False"
| "truthy Null = False"
| "truthy (Str s) = (s \<noteq> [])"
| "truthy (Num n) = (n \<noteq> 0)"
| "truthy (Bool b) = b"
| "truthy v = True"

text \<open>\<^verbatim>\<open>a || b\<close>\<close>

definition js_or :: "jsval \<Rightarrow> jsval \<Rightarrow> jsval" where
  "js_or a b = (if truthy a then a else b)"

text \<open>
  The order of own property keys: the keys that are array indices (the decimal text,
  without a sign or a leading zero, of an integer from 0 to \<open>2\<^sup>3\<^sup>2 - 2\<close>) come first, in
  ascending numeric order, then the other keys in the order of their creation.
\<close>

definition is_digit :: "char \<Rightarrow> bool" where
  "is_digit c = (48 \<le> (of_char c :: int) \<and> (of_char c :: int) \<le> 57)"

definition digits_value :: "string \<Rightarrow> int" where
  "digits_value s = foldl (\<lambda>a c. 10 * a + (of_char c - 48)) 0 s"

definition array_index :: "string \<Rightarrow> bool" where
  "array_index k =
     (k \<noteq> [] \<and> list_all is_digit k \<and> (k = ''0'' \<or> hd k \<noteq> CHR ''0'') \<and> digits_value k < 4294967295)"

definition own_order :: "(string \<times> 'a) list \<Rightarrow> (string \<times> 'a) list" where
  "own_order ps =
     sort_key (\<lambda>p. digits_value (fst p)) (filter (\<lambda>p. array_index (fst p)) ps)
       @ filter (\<lambda>p. \<not> array_index (fst p)) ps"

text \<open>
  The own properties of a value in the order of \<^verbatim>\<open>Object.getOwnPropertyNames\<close> and
  \<^verbatim>\<open>Object.keys\<close>.
\<close>

fun own_props :: "jsval \<Rightarrow> (string \<times> jsval) list" where
  "own_props (Obj c ps) = own_order ps"
| "own_props v = []"

text \<open>
  \<^verbatim>\<open>o[k]\<close> for reading: a missing property is \<^verbatim>\<open>undefined\<close>; reading a property
  of \<^verbatim>\<open>undefined\<close> or \<^verbatim>\<open>null\<close> throws a TypeError.
\<close>

fun get_prop :: "jsval \<Rightarrow> string \<Rightarrow> error + jsval" where
  "get_prop Undef k = Inl TypeError"
| "get_prop Null k = Inl TypeError"
| "get_prop (Obj c ps) k = Inr (case map_of ps k of None \<Rightarrow> Undef | Some v \<Rightarrow> v)"
| "get_prop v k = Inr Undef"

text \<open>
  \<^verbatim>\<open>o[k] = v\<close> on the list of the properties in the order of their creation: an
  existing property keeps its place, a new one is the latest.
\<close>

fun assign :: "(string \<times> jsval) list \<Rightarrow> string \<Rightarrow> jsval \<Rightarrow> (string \<times> jsval) list" where
  "assign [] k v = [(k, v)]"
| "assign ((k', v') # ps) k v = (if k' = k then (k, v) # ps else (k', v') # assign ps k v)"

text \<open>
  \<^verbatim>\<open>o[k] = v\<close>: the code of a class body is strict, so assigning to a property of a
  primitive throws a TypeError, as it does on \<^verbatim>\<open>undefined\<close> and \<^verbatim>\<open>null\<close>.
\<close>

fun set_prop :: "jsval \<Rightarrow> string \<Rightarrow> jsval \<Rightarrow> error + jsval" where
  "set_prop (Obj c ps) k v = Inr (Obj c (assign ps k v))"
| "set_prop u k v = Inl TypeError"

text \<open>
  The text of a number, for a number used as a property key or joined into a message: the
  decimal digits up to 21 of them, and from \<open>10\<^sup>2\<^sup>1\<close> the exponent form, as in
  \<^verbatim>\<open>1e+21\<close> and \<^verbatim>\<open>1.5e+22\<close>.
\<close>

definition digit_char :: "int \<Rightarrow> char" where
  "digit_char n = char_of (48 + n)"

function decimal_digits :: "int \<Rightarrow> string" where
  "decimal_digits n =
     (if n < 10 then [digit_char n] else decimal_digits (n div 10) @ [digit_char (n mod 10)])"
  by pat_completeness auto
termination
  by (relation "measure nat") auto

declare decimal_digits.simps [simp del]

definition number_text :: "int \<Rightarrow> string" where
  "number_text n =
     (let ds = decimal_digits n in
      if length ds \<le> 21 then ds
      else let significant = rev (dropWhile (\<lambda>c. c = CHR ''0'') (rev ds))
           in [hd significant]
              @ (if tl significant = [] then [] else CHR ''.'' # tl significant)
              @ ''e+'' @ decimal_digits (int (length ds) - 1))"

definition int_str :: "int \<Rightarrow> string" where
  "int_str i = (if i < 0 then CHR ''-'' # number_text (- i) else number_text i)"

text \<open>
  The property key that a value used as a key converts to. The text of an object and of a
  class depends on their \<^verbatim>\<open>toString\<close>; no sheet cell holds one.
\<close>

fun to_key :: "jsval \<Rightarrow> string" where
  "to_key Undef = ''undefined''"
| "to_key Null = ''null''"
| "to_key (Str s) = s"
| "to_key (Num n) = int_str n"
| "to_key (Bool b) = (if b then ''true'' else ''false'')"
| "to_key (Date s) = s"
| "to_key (Obj c ps) = ''[object Object]''"
| "to_key (Class c) = ''class '' @ cls_name c"

text \<open>\<^verbatim>\<open>xs[i]\<close> on an array: \<^verbatim>\<open>undefined\<close> out of range.\<close>

definition at :: "jsval list \<Rightarrow> nat \<Rightarrow> jsval" where
  "at xs i = (if i < length xs then xs ! i else Undef)"

text \<open>
  \<^verbatim>\<open>xs[i] = v\<close> on an array, where \<^verbatim>\<open>i\<close> comes from \<^verbatim>\<open>indexOf\<close>: at
  \<^verbatim>\<open>-1\<close> the assignment creates a property named \<^verbatim>\<open>"-1"\<close> and no element; past
  the end the array grows, the holes reading as \<^verbatim>\<open>undefined\<close>.
\<close>

definition set_at :: "jsval list \<Rightarrow> int \<Rightarrow> jsval \<Rightarrow> jsval list" where
  "set_at xs i v =
     (if i < 0 then xs
      else if nat i < length xs then xs[nat i := v]
      else xs @ replicate (nat i - length xs) Undef @ [v])"

text \<open>\<^verbatim>\<open>xs.indexOf(x)\<close>\<close>

fun indexOf :: "jsval list \<Rightarrow> jsval \<Rightarrow> int" where
  "indexOf [] x = -1"
| "indexOf (y # ys) x = (if y = x then 0 else (let i = indexOf ys x in if i < 0 then -1 else i + 1))"

text \<open>\<^verbatim>\<open>xs.forEach((x, index) => ...)\<close> and \<^verbatim>\<open>map\<close> see each element with its index.\<close>

definition indexed :: "'a list \<Rightarrow> (nat \<times> 'a) list" where
  "indexed xs = zip [0 ..< length xs] xs"

subsection \<open>Identifier generation\<close>

definition characters :: string where
  "characters = ''ABCDEFGHIJKLMNOPQRSTUVWXYZabcdefghijklmnopqrstuvwxyz0123456789''"

text \<open>\<^verbatim>\<open>s.charAt(i)\<close>: the empty string out of range.\<close>

definition charAt :: "string \<Rightarrow> nat \<Rightarrow> string" where
  "charAt s i = (if i < length s then [s ! i] else [])"

text \<open>
  \<^verbatim>\<open>generateId(length)\<close>. The random source is a parameter: \<open>rnd k\<close> is the value
  of \<^verbatim>\<open>Math.floor(Math.random() * charactersLength)\<close> in the iteration whose counter is
  \<open>k\<close>. \<^verbatim>\<open>Math.random()\<close> is in \<open>[0, 1)\<close>, so every draw is below
  \<^verbatim>\<open>charactersLength\<close>; the theorems on the identifier assume it of \<open>rnd\<close>.
\<close>

function generateId_loop :: "(nat \<Rightarrow> nat) \<Rightarrow> int \<Rightarrow> int \<Rightarrow> string \<Rightarrow> string" where
  "generateId_loop rnd len counter result =
     (if counter < len
      then generateId_loop rnd len (counter + 1) (result @ charAt characters (rnd (nat counter)))
      else result)"
  by pat_completeness auto
termination
  by (relation "measure (\<lambda>(rnd, len, counter, result). nat (len - counter))") auto

declare generateId_loop.simps [simp del]

definition generateId :: "(nat \<Rightarrow> nat) \<Rightarrow> int \<Rightarrow> error + string" where
  "generateId rnd len =
     (if len \<le> 0 then Inl (Error ''Length must be greater than 0'')
      else Inr (generateId_loop rnd len 0 []))"

text \<open>The characters of \<^verbatim>\<open>[A-Za-z0-9]\<close>, by their codes.\<close>

definition alnum :: "char \<Rightarrow> bool" where
  "alnum c = (let n = (of_char c :: nat) in
     (65 \<le> n \<and> n \<le> 90) \<or> (97 \<le> n \<and> n \<le> 122) \<or> (48 \<le> n \<and> n \<le> 57))"

subsection \<open>Rows of a grid as keyed records\<close>

text \<open>
  \<^verbatim>\<open>fromRawDataToArrayOfObject(rawData)\<close>. \<^verbatim>\<open>rawData.shift()\<close> removes the
  first row from the caller's array, so the function returns the records together with
  the array as the call leaves it. With an empty array \<^verbatim>\<open>shift\<close> returns
  \<^verbatim>\<open>undefined\<close> and there is no row to read a header for.
\<close>

definition row_record :: "jsval list \<Rightarrow> nat \<Rightarrow> jsval list \<Rightarrow> jsval" where
  "row_record headers row_id row =
     Obj None (foldl (\<lambda>data (index, cell). assign data (to_key (at headers index)) cell)
                 [(''row_number'', Num (int row_id + 2))] (indexed row))"

definition fromRawDataToArrayOfObject :: "jsval list list \<Rightarrow> jsval list \<times> jsval list list" where
  "fromRawDataToArrayOfObject rawData =
     (case rawData of
        [] \<Rightarrow> ([], [])
      | headers # rest \<Rightarrow> (map (\<lambda>(row_id, row). row_record headers row_id row) (indexed rest), rest))"

subsection \<open>Column descriptors and classes\<close>

text \<open>
  The factories of \<^verbatim>\<open>COLUMN()\<close>. The parameter \<^verbatim>\<open>required = true\<close> takes its
  default when the argument is missing or \<^verbatim>\<open>undefined\<close>.
\<close>

definition required_default :: "jsval \<Rightarrow> jsval" where
  "required_default required = (if required = Undef then Bool True else required)"

definition DATE :: "jsval \<Rightarrow> jsval \<Rightarrow> jsval" where
  "DATE v required =
     Obj None [(''_value'', js_or v (Str [])), (''_type'', Str ''date''),
               (''_required'', required_default required)]"

definition TIME :: "jsval \<Rightarrow> jsval \<Rightarrow> jsval" where
  "TIME v required =
     Obj None [(''_value'', js_or v (Str [])), (''_type'', Str ''time''),
               (''_required'', required_default required)]"

definition STRING :: "jsval \<Rightarrow> jsval \<Rightarrow> jsval" where
  "STRING v required =
     Obj None [(''_value'', js_or v (Str [])), (''_type'', Str ''str''),
               (''_required'', required_default required)]"

definition NUMBER :: "jsval \<Rightarrow> jsval \<Rightarrow> jsval" where
  "NUMBER v required =
     Obj None [(''_value'', js_or v (Num 0)), (''_type'', Str ''number''),
               (''_required'', required_default required)]"

definition BOOLEAN :: "jsval \<Rightarrow> jsval \<Rightarrow> jsval" where
  "BOOLEAN v required =
     Obj None [(''_value'', js_or v (Bool False)), (''_type'', Str ''bool''),
               (''_required'', required_default required)]"

definition FOREIGNKEY :: "jsval \<Rightarrow> jsval \<Rightarrow> jsval \<Rightarrow> jsval" where
  "FOREIGNKEY v class_name required =
     Obj None [(''_value'', js_or v (Str [])), (''_type'', Str ''fk''),
               (''_required'', required_default required), (''_class'', class_name)]"

text \<open>
  \<^verbatim>\<open>isColumn(propertyInfo = {})\<close>: \<^verbatim>\<open>Object.keys\<close> throws on \<^verbatim>\<open>null\<close>; the
  default \<^verbatim>\<open>{}\<close> stands in for \<^verbatim>\<open>undefined\<close>; the keys of a string are its
  indices and a number, a boolean, a date and a class have none, so none of them has
  the three keys.
\<close>

fun isColumn :: "jsval \<Rightarrow> error + bool" where
  "isColumn Null = Inl TypeError"
| "isColumn (Obj c ps) =
     Inr (let keys = map fst ps in
          if length keys = 0 then False
          else length (filter (\<lambda>prop. prop \<notin> set keys) [''_value'', ''_type'', ''_required'']) = 0)"
| "isColumn v = Inr False"

text \<open>
  The constructor of \<^verbatim>\<open>GSTable\<close> with its default arguments; \<open>now\<close> is the text
  of \<^verbatim>\<open>new Date()\<close>.
\<close>

definition GSTable_constructor :: "string \<Rightarrow> (string \<times> jsval) list" where
  "GSTable_constructor now =
     [(''id'', STRING (Str []) (Bool True)),
      (''row_number'', Num 0),
      (''created'', DATE (Date now) (Bool True)),
      (''modified'', DATE (Date now) (Bool True)),
      (''created_by'', STRING (Str []) (Bool True)),
      (''last_modified_by'', STRING (Str []) (Bool True))]"

text \<open>
  \<^verbatim>\<open>new this()\<close>: the base constructor runs first (\<^verbatim>\<open>super()\<close>), then the
  assignments of the subclass.
\<close>

definition new_entity :: "string \<Rightarrow> cls \<Rightarrow> jsval" where
  "new_entity now c =
     Obj (Some c) (foldl (\<lambda>ps (k, v). assign ps k v) (GSTable_constructor now) (cls_decl c))"

text \<open>
  \<^verbatim>\<open>class_props.filter((prop) => this.isColumn(emptyObj[prop]))\<close> over the own
  properties of an object.
\<close>

fun column_names :: "(string \<times> jsval) list \<Rightarrow> error + string list" where
  "column_names [] = Inr []"
| "column_names ((k, v) # ps) =
     (case isColumn v of
        Inl e \<Rightarrow> Inl e
      | Inr b \<Rightarrow> (case column_names ps of
                   Inl e \<Rightarrow> Inl e
                 | Inr ks \<Rightarrow> Inr (if b then k # ks else ks)))"

subsection \<open>The spreadsheet\<close>

text \<open>
  Modelled from the spec: the tabular store (\<^verbatim>\<open>SpreadsheetApp\<close>, the sheets and
  their ranges) is a service outside the repository; section 6 of the specification gives
  its interface. A sheet is the list of its rows, row 1 first, each row the list of its
  cells from column 1; a cell beyond the end of a row is empty and reads as the empty
  string. The spreadsheet maps the name of a sheet to the sheet. The operations are
  total: the faults of the service (a range with no column, a row index below 1) are not
  modelled, and \<^verbatim>\<open>SpreadsheetApp.flush()\<close> changes nothing.
\<close>

type_synonym grid = "jsval list list"

type_synonym spreadsheet = "string \<Rightarrow> grid option"

text \<open>\<^verbatim>\<open>sheet.getLastRow()\<close>, \<^verbatim>\<open>sheet.getLastColumn()\<close>\<close>

definition getLastRow :: "grid \<Rightarrow> nat" where
  "getLastRow g = length g"

definition getLastColumn :: "grid \<Rightarrow> nat" where
  "getLastColumn g = foldr (\<lambda>row n. max (length row) n) g 0"

definition pad :: "nat \<Rightarrow> jsval list \<Rightarrow> jsval list" where
  "pad n row = row @ replicate (n - length row) (Str [])"

definition grid_row :: "grid \<Rightarrow> nat \<Rightarrow> jsval list" where
  "grid_row g r = (if 1 \<le> r \<and> r \<le> length g then g ! (r - 1) else [])"

text \<open>\<^verbatim>\<open>sheet.getRange(r, 1, 1, n).getValues()[0]\<close>\<close>

definition read_row :: "grid \<Rightarrow> nat \<Rightarrow> nat \<Rightarrow> jsval list" where
  "read_row g r n = take n (pad n (grid_row g r))"

text \<open>\<^verbatim>\<open>sheet.getDataRange().getValues()\<close>\<close>

definition getDataRange_getValues :: "grid \<Rightarrow> grid" where
  "getDataRange_getValues g = map (pad (getLastColumn g)) g"

text \<open>\<^verbatim>\<open>sheet.appendRow(values)\<close>\<close>

definition appendRow :: "grid \<Rightarrow> jsval list \<Rightarrow> grid" where
  "appendRow g vs = g @ [vs]"

text \<open>\<^verbatim>\<open>sheet.getRange(r, c, 1, n).setValues([vs])\<close>\<close>

definition write_cells :: "grid \<Rightarrow> nat \<Rightarrow> nat \<Rightarrow> jsval list \<Rightarrow> grid" where
  "write_cells g r c vs =
     (if r = 0 \<or> c = 0 then g
      else let g' = g @ replicate (r - length g) [];
               row = g' ! (r - 1)
           in g'[r - 1 := take (c - 1) (pad (c - 1) row) @ vs @ drop (c - 1 + length vs) row])"

text \<open>\<^verbatim>\<open>sheet.deleteColumn(k)\<close>: the columns to the right move one place left.\<close>

definition deleteColumn :: "grid \<Rightarrow> nat \<Rightarrow> grid" where
  "deleteColumn g k = (if k = 0 then g else map (\<lambda>row. take (k - 1) row @ drop k row) g)"

text \<open>
  \<^verbatim>\<open>sheet.getRange(r, 1, 1, sheet.getLastColumn()).deleteCells(ROWS)\<close>: the range spans
  the row, the rows below move up.
\<close>

definition deleteRow :: "grid \<Rightarrow> nat \<Rightarrow> grid" where
  "deleteRow g r = (if r = 0 then g else take (r - 1) g @ drop r g)"

definition sheet_of :: "spreadsheet \<Rightarrow> string \<Rightarrow> grid" where
  "sheet_of ss name = (case ss name of None \<Rightarrow> [] | Some g \<Rightarrow> g)"

subsection \<open>Schema synchronisation\<close>

text \<open>
  \<^verbatim>\<open>getTableInfo()\<close> of the class \<open>c\<close>. The result is the handle of the sheet (its
  name) with the headers, and the spreadsheet as the call leaves it. The value of
  \<^verbatim>\<open>headers.concat(new_props)\<close> is dropped in the source, so it is here.
\<close>

definition sync_existing :: "string list \<Rightarrow> grid \<Rightarrow> jsval list \<times> grid" where
  "sync_existing class_props g =
     (let headers = read_row g 1 (getLastColumn g);
          new_props = filter (\<lambda>n. Str n \<notin> set headers) class_props;
          g1 = (if length new_props > 0
                then write_cells g 1 (getLastColumn g + 1) (map Str new_props)
                else g);
          columns_to_delete = filter (\<lambda>n. n \<notin> set (map Str class_props)) headers;
          g2 = foldl (\<lambda>sheet column. deleteColumn sheet (nat (indexOf headers column + 1)))
                 g1 columns_to_delete
      in (headers, g2))"

definition getTableInfo ::
  "string \<Rightarrow> cls \<Rightarrow> spreadsheet \<Rightarrow> (error + string \<times> jsval list) \<times> spreadsheet" where
  "getTableInfo now c ss =
     (let emptyObj = new_entity now c
      in case column_names (own_props emptyObj) of
           Inl e \<Rightarrow> (Inl e, ss)
         | Inr class_props \<Rightarrow>
             (let sheet_name = cls_name c
              in case ss sheet_name of
                   None \<Rightarrow>
                     (Inr (sheet_name, map Str class_props),
                      ss(sheet_name \<mapsto> appendRow [] (map Str class_props)))
                 | Some g \<Rightarrow>
                     (let (headers, g') = sync_existing class_props g
                      in (Inr (sheet_name, headers), ss(sheet_name \<mapsto> g')))))"

subsection \<open>Reading entities\<close>

text \<open>\<^verbatim>\<open>this[prop]._value\<close> and \<^verbatim>\<open>this[prop]._value = v\<close>\<close>

definition get_value :: "jsval \<Rightarrow> string \<Rightarrow> error + jsval" where
  "get_value this prop =
     (case get_prop this prop of Inl e \<Rightarrow> Inl e | Inr info \<Rightarrow> get_prop info ''_value'')"

definition set_value :: "jsval \<Rightarrow> string \<Rightarrow> jsval \<Rightarrow> error + jsval" where
  "set_value this prop v =
     (case get_prop this prop of
        Inl e \<Rightarrow> Inl e
      | Inr info \<Rightarrow>
          (case set_prop info ''_value'' v of
             Inl e \<Rightarrow> Inl e
           | Inr info' \<Rightarrow> set_prop this prop info'))"

text \<open>
  \<^verbatim>\<open>fromJson(rawObject)\<close>: the loop over the property names of the blank instance.
\<close>

fun fromJson_loop :: "jsval \<Rightarrow> jsval \<Rightarrow> string list \<Rightarrow> error + jsval" where
  "fromJson_loop rawObject dummyObj [] = Inr dummyObj"
| "fromJson_loop rawObject dummyObj (property # rest) =
     (case get_prop dummyObj property of
        Inl e \<Rightarrow> Inl e
      | Inr info \<Rightarrow>
          (case isColumn info of
             Inl e \<Rightarrow> Inl e
           | Inr b \<Rightarrow>
               (case get_prop rawObject property of
                  Inl e \<Rightarrow> Inl e
                | Inr raw \<Rightarrow>
                    (case (if b then set_value dummyObj property raw
                           else set_prop dummyObj property raw) of
                       Inl e \<Rightarrow> Inl e
                     | Inr dummyObj' \<Rightarrow> fromJson_loop rawObject dummyObj' rest))))"

definition fromJson :: "string \<Rightarrow> cls \<Rightarrow> jsval \<Rightarrow> error + jsval" where
  "fromJson now c rawObject =
     (let dummyObj = new_entity now c;
          properties = map fst (own_props dummyObj)
      in fromJson_loop rawObject dummyObj properties)"

text \<open>\<^verbatim>\<open>xs.map(f)\<close> where \<^verbatim>\<open>f\<close> may throw: the first exception ends the call.\<close>

fun map_throwing :: "('a \<Rightarrow> error + 'b) \<Rightarrow> 'a list \<Rightarrow> error + 'b list" where
  "map_throwing f [] = Inr []"
| "map_throwing f (x # xs) =
     (case f x of
        Inl e \<Rightarrow> Inl e
      | Inr y \<Rightarrow> (case map_throwing f xs of Inl e \<Rightarrow> Inl e | Inr ys \<Rightarrow> Inr (y # ys)))"

text \<open>\<^verbatim>\<open>findAll()\<close>\<close>

definition findAll :: "string \<Rightarrow> cls \<Rightarrow> spreadsheet \<Rightarrow> (error + jsval list) \<times> spreadsheet" where
  "findAll now c ss =
     (case getTableInfo now c ss of
        (Inl e, ss') \<Rightarrow> (Inl e, ss')
      | (Inr (sheet, headers), ss') \<Rightarrow>
          (let rawArray = fst (fromRawDataToArrayOfObject (getDataRange_getValues (sheet_of ss' sheet)))
           in (map_throwing (fromJson now c) rawArray, ss')))"

text \<open>
  \<^verbatim>\<open>entities.find((entity) => entity.id._value === id)\<close>: \<^verbatim>\<open>find\<close> returns
  \<^verbatim>\<open>undefined\<close> when no element passes.
\<close>

fun find_id :: "jsval list \<Rightarrow> jsval \<Rightarrow> error + jsval" where
  "find_id [] ident = Inr Undef"
| "find_id (entity # rest) ident =
     (case get_value entity ''id'' of
        Inl e \<Rightarrow> Inl e
      | Inr v \<Rightarrow> if v = ident then Inr entity else find_id rest ident)"

text \<open>\<^verbatim>\<open>findById(id)\<close>\<close>

definition findById :: "string \<Rightarrow> cls \<Rightarrow> jsval \<Rightarrow> spreadsheet \<Rightarrow> (error + jsval) \<times> spreadsheet" where
  "findById now c ident ss =
     (case findAll now c ss of
        (Inl e, ss') \<Rightarrow> (Inl e, ss')
      | (Inr entities, ss') \<Rightarrow> (find_id entities ident, ss'))"

text \<open>
  A value of the \<^verbatim>\<open>conditions\<close> object: a function, which returns or throws, or
  another value. A class is a function to \<^verbatim>\<open>typeof\<close>, and calling it without
  \<^verbatim>\<open>new\<close> throws a TypeError.
\<close>

datatype cond = Fn "jsval \<Rightarrow> error + jsval" | Val jsval

fun is_function :: "cond \<Rightarrow> bool" where
  "is_function (Fn f) = True"
| "is_function (Val (Class c)) = True"
| "is_function (Val v) = False"

fun call_cond :: "cond \<Rightarrow> jsval \<Rightarrow> error + jsval" where
  "call_cond (Fn f) x = f x"
| "call_cond (Val v) x = Inl TypeError"

text \<open>
  \<^verbatim>\<open>condition_keys.every(key => ...)\<close> for one entity; \<^verbatim>\<open>every\<close> stops at the
  first key whose test is falsy.
\<close>

fun every_key :: "(string \<times> cond) list \<Rightarrow> jsval \<Rightarrow> string list \<Rightarrow> error + bool" where
  "every_key conditions entity [] = Inr True"
| "every_key conditions entity (key # rest) =
     (case map_of conditions key of
        None \<Rightarrow> every_key conditions entity rest
      | Some cnd \<Rightarrow>
          if \<not> is_function cnd then every_key conditions entity rest
          else (case get_prop entity key of
                  Inl e \<Rightarrow> Inl e
                | Inr v \<Rightarrow>
                    (case call_cond cnd v of
                       Inl e \<Rightarrow> Inl e
                     | Inr r \<Rightarrow> if truthy r then every_key conditions entity rest else Inr False)))"

text \<open>\<^verbatim>\<open>xs.filter(p)\<close> where \<^verbatim>\<open>p\<close> may throw.\<close>

fun filter_throwing :: "('a \<Rightarrow> error + bool) \<Rightarrow> 'a list \<Rightarrow> error + 'a list" where
  "filter_throwing p [] = Inr []"
| "filter_throwing p (x # xs) =
     (case p x of
        Inl e \<Rightarrow> Inl e
      | Inr b \<Rightarrow> (case filter_throwing p xs of
                   Inl e \<Rightarrow> Inl e
                 | Inr ys \<Rightarrow> Inr (if b then x # ys else ys)))"

text \<open>
  \<^verbatim>\<open>filterByConsitions(conditions)\<close>; the conditions object is the list of its own
  properties in the order of their creation.
\<close>

definition filterByConsitions ::
  "string \<Rightarrow> cls \<Rightarrow> (string \<times> cond) list \<Rightarrow> spreadsheet \<Rightarrow> (error + jsval list) \<times> spreadsheet" where
  "filterByConsitions now c conditions ss =
     (let condition_keys = map fst (own_order conditions)
      in if length condition_keys = 0 then (Inr [], ss)
         else (case findAll now c ss of
                 (Inl e, ss') \<Rightarrow> (Inl e, ss')
               | (Inr entities, ss') \<Rightarrow>
                   (filter_throwing (\<lambda>entity. every_key conditions entity condition_keys) entities, ss')))"

subsection \<open>Writing entities\<close>

text \<open>\<^verbatim>\<open>this.constructor\<close>: the class of an entity; a plain object has none of ours.\<close>

fun constructor_of :: "jsval \<Rightarrow> error + cls" where
  "constructor_of (Obj (Some c) ps) = Inr c"
| "constructor_of v = Inl TypeError"

text \<open>The loop of \<^verbatim>\<open>getUpdateArray()\<close> over the headers.\<close>

fun update_values :: "jsval \<Rightarrow> jsval list \<Rightarrow> error + jsval list" where
  "update_values this [] = Inr []"
| "update_values this (header # rest) =
     (case get_prop this (to_key header) of
        Inl e \<Rightarrow> Inl e
      | Inr propertyInfo \<Rightarrow>
          (case isColumn propertyInfo of
             Inl e \<Rightarrow> Inl e
           | Inr b \<Rightarrow>
               (case (if b then get_prop propertyInfo ''_value'' else Inr Undef) of
                  Inl e \<Rightarrow> Inl e
                | Inr v \<Rightarrow>
                    (case update_values this rest of
                       Inl e \<Rightarrow> Inl e
                     | Inr vs \<Rightarrow> Inr (if b then v # vs else vs)))))"

text \<open>\<^verbatim>\<open>getUpdateArray()\<close>: it synchronises the schema again.\<close>

definition getUpdateArray :: "string \<Rightarrow> jsval \<Rightarrow> spreadsheet \<Rightarrow> (error + jsval list) \<times> spreadsheet" where
  "getUpdateArray now this ss =
     (case constructor_of this of
        Inl e \<Rightarrow> (Inl e, ss)
      | Inr c \<Rightarrow>
          (case getTableInfo now c ss of
             (Inl e, ss') \<Rightarrow> (Inl e, ss')
           | (Inr (sheet, headers), ss') \<Rightarrow> (update_values this headers, ss')))"

text \<open>\<^verbatim>\<open>checkRequired(headers, updateArray)\<close>: the loop sees each header with its index.\<close>

fun checkRequired_loop :: "jsval \<Rightarrow> (nat \<times> jsval) list \<Rightarrow> jsval list \<Rightarrow> error + jsval list" where
  "checkRequired_loop this [] updateArray = Inr []"
| "checkRequired_loop this ((i, header) # rest) updateArray =
     (case get_prop this (to_key header) of
        Inl e \<Rightarrow> Inl e
      | Inr info \<Rightarrow>
          (case get_prop info ''_required'' of
             Inl e \<Rightarrow> Inl e
           | Inr req \<Rightarrow>
               (let element = at updateArray i
                in case checkRequired_loop this rest updateArray of
                     Inl e \<Rightarrow> Inl e
                   | Inr wrongs \<Rightarrow>
                       Inr (if truthy req \<and> (element = Undef \<or> element = Str [])
                            then header # wrongs else wrongs))))"

definition checkRequired :: "jsval \<Rightarrow> jsval list \<Rightarrow> jsval list \<Rightarrow> error + jsval list" where
  "checkRequired this headers updateArray = checkRequired_loop this (indexed headers) updateArray"

text \<open>\<^verbatim>\<open>xs.join(sep)\<close>: \<^verbatim>\<open>undefined\<close> and \<^verbatim>\<open>null\<close> join as the empty string.\<close>

fun join_text :: "jsval \<Rightarrow> string" where
  "join_text Undef = []"
| "join_text Null = []"
| "join_text v = to_key v"

fun join :: "string \<Rightarrow> jsval list \<Rightarrow> string" where
  "join sep [] = []"
| "join sep [x] = join_text x"
| "join sep (x # y # rest) = join_text x @ sep @ join sep (y # rest)"

text \<open>The message of the error that \<^verbatim>\<open>persist()\<close> throws for missing required values.\<close>

definition required_message :: "jsval list \<Rightarrow> string" where
  "required_message wrongs =
     [CHR 0x27] @ join ([CHR 0x27] @ '', '' @ [CHR 0x27]) wrongs @ [CHR 0x27] @ '' are marked as ''
       @ [CHR 0x27] @ ''required'' @ [CHR 0x27]"

text \<open>
  What a call of \<^verbatim>\<open>persist()\<close> reads from its surroundings: the text of
  \<^verbatim>\<open>new Date()\<close>, the e-mail of \<^verbatim>\<open>Session.getActiveUser()\<close> (\<open>None\<close> when it is
  \<^verbatim>\<open>null\<close>), the random source and, since a date is represented by its text, whether
  the time value of the date of a given text is above 0.
\<close>

record env =
  env_now :: string
  env_user :: "string option"
  env_rnd :: "nat \<Rightarrow> nat"
  env_after_epoch :: "string \<Rightarrow> bool"

text \<open>
  A method that throws leaves the entity and the spreadsheet as they are at the throw:
  the methods return the exception, if any, with both.

  The stamps of \<^verbatim>\<open>persist()\<close>: \<^verbatim>\<open>modified\<close> and \<^verbatim>\<open>last_modified_by\<close>.
\<close>

definition stamp :: "env \<Rightarrow> jsval \<Rightarrow> error option \<times> jsval" where
  "stamp ev this =
     (case set_value this ''modified'' (Date (env_now ev)) of
        Inl e \<Rightarrow> (Some e, this)
      | Inr this1 \<Rightarrow>
          (case env_user ev of
             None \<Rightarrow> (None, this1)
           | Some email \<Rightarrow>
               (case set_value this1 ''last_modified_by'' (Str email) of
                  Inl e \<Rightarrow> (Some e, this1)
                | Inr this2 \<Rightarrow> (None, this2))))"

text \<open>
  \<^verbatim>\<open>Object.keys(newEntityProps).forEach(...)\<close>: each new value goes to the entity and
  to the row at the position of its header.
\<close>

fun assign_new ::
  "jsval list \<Rightarrow> (string \<times> jsval) list \<Rightarrow> jsval \<Rightarrow> jsval list \<Rightarrow> error option \<times> jsval \<times> jsval list" where
  "assign_new headers [] this updateArray = (None, this, updateArray)"
| "assign_new headers ((prop, v) # rest) this updateArray =
     (case set_value this prop v of
        Inl e \<Rightarrow> (Some e, this, updateArray)
      | Inr this' \<Rightarrow>
          assign_new headers rest this' (set_at updateArray (indexOf headers (Str prop)) v))"

text \<open>
  \<^verbatim>\<open>x > 0\<close> converts \<^verbatim>\<open>x\<close> to a number first. For a string the conversion reads a
  numeric literal between white space: an optional sign with decimal digits, a fraction
  and an exponent, or \<^verbatim>\<open>Infinity\<close>, or an unsigned binary, octal or hexadecimal
  integer; the empty string is 0 and any other text is \<^verbatim>\<open>NaN\<close>, which is not above
  0. The value of the literal is rounded to a double: it is above 0 when it is above
  \<open>2\<^sup>-\<^sup>1\<^sup>0\<^sup>7\<^sup>5\<close>, half of the least positive double.
\<close>

definition is_space :: "char \<Rightarrow> bool" where
  "is_space c = ((of_char c :: int) \<in> set [9, 10, 11, 12, 13, 32])"

definition trim :: "string \<Rightarrow> string" where
  "trim s = rev (dropWhile is_space (rev (dropWhile is_space s)))"

definition radix_digit :: "int \<Rightarrow> char \<Rightarrow> bool" where
  "radix_digit b c =
     (let n = (of_char c :: int) in
      if b = 16 then is_digit c \<or> (65 \<le> n \<and> n \<le> 70) \<or> (97 \<le> n \<and> n \<le> 102)
      else 48 \<le> n \<and> n < 48 + b)"

text \<open>The digits after \<^verbatim>\<open>0x\<close>, \<^verbatim>\<open>0o\<close> or \<^verbatim>\<open>0b\<close> give an integer above 0.\<close>

definition radix_positive :: "int \<Rightarrow> string \<Rightarrow> bool" where
  "radix_positive b ds =
     (ds \<noteq> [] \<and> list_all (radix_digit b) ds \<and> \<not> list_all (\<lambda>c. c = CHR ''0'') ds)"

text \<open>The integer after the exponent indicator; the exponent is 0 when there is none.\<close>

definition signed_integer :: "string \<Rightarrow> int option" where
  "signed_integer s =
     (let signed = (s \<noteq> [] \<and> (hd s = CHR ''+'' \<or> hd s = CHR ''-''));
          ds = (if signed then tl s else s)
      in if ds = [] \<or> \<not> list_all is_digit ds then None
         else Some (if signed \<and> hd s = CHR ''-'' then - digits_value ds else digits_value ds))"

definition exponent_part :: "string \<Rightarrow> int option" where
  "exponent_part s =
     (if s = [] then Some 0
      else if hd s = CHR ''e'' \<or> hd s = CHR ''E'' then signed_integer (tl s)
      else None)"

text \<open>
  An unsigned decimal literal whose value is above 0 as a double: digits \<open>d\<close> with
  \<open>k\<close> of them after the point, counting the exponent, stand for \<open>d / 10\<^sup>k\<close>.
\<close>

definition decimal_positive :: "string \<Rightarrow> bool" where
  "decimal_positive s =
     (if s = ''Infinity'' then True
      else let whole = takeWhile is_digit s;
               r1 = dropWhile is_digit s;
               dot = (r1 \<noteq> [] \<and> hd r1 = CHR ''.'');
               frac = (if dot then takeWhile is_digit (tl r1) else []);
               r2 = (if dot then dropWhile is_digit (tl r1) else r1)
           in if whole = [] \<and> frac = [] then False
              else (case exponent_part r2 of
                      None \<Rightarrow> False
                    | Some e \<Rightarrow>
                        (let d = digits_value (whole @ frac);
                             k = int (length frac) - e
                         in 0 < d \<and> (k \<le> 0 \<or> 10 ^ nat k < d * 2 ^ 1075))))"

definition string_positive :: "string \<Rightarrow> bool" where
  "string_positive str =
     (let s = trim str in
      if s = [] then False
      else if hd s = CHR ''-'' then False
      else if hd s = CHR ''+'' then decimal_positive (tl s)
      else if 2 \<le> length s \<and> hd s = CHR ''0'' \<and> (s ! 1 = CHR ''x'' \<or> s ! 1 = CHR ''X'')
        then radix_positive 16 (drop 2 s)
      else if 2 \<le> length s \<and> hd s = CHR ''0'' \<and> (s ! 1 = CHR ''o'' \<or> s ! 1 = CHR ''O'')
        then radix_positive 8 (drop 2 s)
      else if 2 \<le> length s \<and> hd s = CHR ''0'' \<and> (s ! 1 = CHR ''b'' \<or> s ! 1 = CHR ''B'')
        then radix_positive 2 (drop 2 s)
      else decimal_positive s)"

text \<open>
  \<^verbatim>\<open>this.row_number > 0\<close>: \<^verbatim>\<open>true\<close> is 1, \<^verbatim>\<open>null\<close> is 0, \<^verbatim>\<open>undefined\<close> is
  \<^verbatim>\<open>NaN\<close>, a date is its time value, and an object or a class converts to a text
  that is no numeric literal.
\<close>

fun gt_zero :: "(string \<Rightarrow> bool) \<Rightarrow> jsval \<Rightarrow> bool" where
  "gt_zero after_epoch (Num n) = (0 < n)"
| "gt_zero after_epoch (Bool b) = b"
| "gt_zero after_epoch (Str s) = string_positive s"
| "gt_zero after_epoch (Date d) = after_epoch d"
| "gt_zero after_epoch v = False"

text \<open>
  The row index that \<^verbatim>\<open>sheet.getRange\<close> takes from \<^verbatim>\<open>this.row_number\<close>: a range
  whose row is not a number is a fault of the service, which is not modelled.
\<close>

fun row_index :: "jsval \<Rightarrow> nat" where
  "row_index (Num n) = nat n"
| "row_index v = 0"

text \<open>\<^verbatim>\<open>persist()\<close>\<close>

definition persist :: "env \<Rightarrow> jsval \<Rightarrow> spreadsheet \<Rightarrow> error option \<times> jsval \<times> spreadsheet" where
  "persist ev this ss =
     (case constructor_of this of
        Inl e \<Rightarrow> (Some e, this, ss)
      | Inr c \<Rightarrow>
     (case getTableInfo (env_now ev) c ss of
        (Inl e, ss1) \<Rightarrow> (Some e, this, ss1)
      | (Inr (sheet, headers), ss1) \<Rightarrow>
     (case stamp ev this of
        (Some e, this1) \<Rightarrow> (Some e, this1, ss1)
      | (None, this1) \<Rightarrow>
     (case getUpdateArray (env_now ev) this1 ss1 of
        (Inl e, ss2) \<Rightarrow> (Some e, this1, ss2)
      | (Inr updateArray, ss2) \<Rightarrow>
     (case get_value this1 ''id'' of
        Inl e \<Rightarrow> (Some e, this1, ss2)
      | Inr idv \<Rightarrow>
          if idv = Str [] then
            (case generateId (env_rnd ev) 8 of
               Inl e \<Rightarrow> (Some e, this1, ss2)
             | Inr new_id \<Rightarrow>
            (case get_value this1 ''modified'' of
               Inl e \<Rightarrow> (Some e, this1, ss2)
             | Inr created \<Rightarrow>
            (case get_value this1 ''last_modified_by'' of
               Inl e \<Rightarrow> (Some e, this1, ss2)
             | Inr created_by \<Rightarrow>
            (case assign_new headers
                    [(''id'', Str new_id), (''created'', created), (''created_by'', created_by)]
                    this1 updateArray of
               (Some e, this2, updateArray2) \<Rightarrow> (Some e, this2, ss2)
             | (None, this2, updateArray2) \<Rightarrow>
            (case checkRequired this2 headers updateArray2 of
               Inl e \<Rightarrow> (Some e, this2, ss2)
             | Inr wrongs \<Rightarrow>
                 if length wrongs > 0
                 then (Some (Error (required_message wrongs)), this2, ss2)
                 else (let g = appendRow (sheet_of ss2 sheet) updateArray2;
                           ss3 = ss2(sheet \<mapsto> g)
                       in case set_prop this2 ''row_number'' (Num (int (getLastRow g))) of
                            Inl e \<Rightarrow> (Some e, this2, ss3)
                          | Inr this3 \<Rightarrow> (None, this3, ss3)))))))
          else
            (case get_prop this1 ''row_number'' of
               Inl e \<Rightarrow> (Some e, this1, ss2)
             | Inr row_number \<Rightarrow>
                 if gt_zero (env_after_epoch ev) row_number then
                   (case checkRequired this1 headers updateArray of
                      Inl e \<Rightarrow> (Some e, this1, ss2)
                    | Inr wrongs \<Rightarrow>
                        if length wrongs > 0
                        then (Some (Error (required_message wrongs)), this1, ss2)
                        else (None, this1,
                              ss2(sheet \<mapsto> write_cells (sheet_of ss2 sheet) (row_index row_number) 1 updateArray)))
                 else (None, this1, ss2)))))))"

text \<open>\<^verbatim>\<open>remove()\<close>\<close>

definition remove :: "string \<Rightarrow> jsval \<Rightarrow> spreadsheet \<Rightarrow> error option \<times> jsval \<times> spreadsheet" where
  "remove now this ss =
     (case get_prop this ''row_number'' of
        Inl e \<Rightarrow> (Some e, this, ss)
      | Inr row_number \<Rightarrow>
          if row_number = Num 0 then (None, this, ss)
          else
            (case constructor_of this of
               Inl e \<Rightarrow> (Some e, this, ss)
             | Inr c \<Rightarrow>
            (case getTableInfo now c ss of
               (Inl e, ss1) \<Rightarrow> (Some e, this, ss1)
             | (Inr (sheet, headers), ss1) \<Rightarrow>
                 (let ss2 = ss1(sheet \<mapsto> deleteRow (sheet_of ss1 sheet) (row_index row_number))
                  in case set_prop this ''row_number'' (Num 0) of
                       Inl e \<Rightarrow> (Some e, this, ss2)
                     | Inr this' \<Rightarrow> (None, this', ss2)))))"

subsection \<open>Foreign keys\<close>

text \<open>\<^verbatim>\<open>o.hasOwnProperty(k)\<close>\<close>

fun hasOwnProperty :: "jsval \<Rightarrow> string \<Rightarrow> bool" where
  "hasOwnProperty (Obj c ps) k = (k \<in> set (map fst ps))"
| "hasOwnProperty v k = False"

text \<open>
  \<^verbatim>\<open>expand()\<close>: the loop over the property names the entity has at the start. A
  \<^verbatim>\<open>_class\<close> that is not a class has no \<^verbatim>\<open>findById\<close> to call.
\<close>

fun expand_loop :: "string \<Rightarrow> string list \<Rightarrow> jsval \<Rightarrow> spreadsheet \<Rightarrow> error option \<times> jsval \<times> spreadsheet" where
  "expand_loop now [] this ss = (None, this, ss)"
| "expand_loop now (prop # rest) this ss =
     (case get_prop this prop of
        Inl e \<Rightarrow> (Some e, this, ss)
      | Inr propertyInfo \<Rightarrow>
          (case isColumn propertyInfo of
             Inl e \<Rightarrow> (Some e, this, ss)
           | Inr b \<Rightarrow>
               if b \<and> hasOwnProperty propertyInfo ''_class'' then
                 (case get_prop propertyInfo ''_class'' of
                    Inr (Class c) \<Rightarrow>
                      (case get_prop propertyInfo ''_value'' of
                         Inl e \<Rightarrow> (Some e, this, ss)
                       | Inr v \<Rightarrow>
                           (case findById now c v ss of
                              (Inl e, ss') \<Rightarrow> (Some e, this, ss')
                            | (Inr found, ss') \<Rightarrow>
                                (case set_prop this (prop @ ''_'') found of
                                   Inl e \<Rightarrow> (Some e, this, ss')
                                 | Inr this' \<Rightarrow> expand_loop now rest this' ss')))
                  | _ \<Rightarrow> (Some TypeError, this, ss))
               else expand_loop now rest this ss))"

definition expand :: "string \<Rightarrow> jsval \<Rightarrow> spreadsheet \<Rightarrow> error option \<times> jsval \<times> spreadsheet" where
  "expand now this ss = expand_loop now (map fst (own_props this)) this ss"

subsection \<open>Notions of the specification\<close>

text \<open>
  The required-field check in the words of the specification: for each header position,
  if the corresponding column is marked required and the value at that position in the
  row is \<^verbatim>\<open>undefined\<close> or the empty string, the header name is missing.
\<close>

definition required_of :: "jsval \<Rightarrow> jsval \<Rightarrow> bool" where
  "required_of this header =
     (case get_prop this (to_key header) of
        Inl e \<Rightarrow> False
      | Inr info \<Rightarrow> (case get_prop info ''_required'' of Inl e \<Rightarrow> False | Inr req \<Rightarrow> truthy req))"

definition missing_required :: "jsval \<Rightarrow> jsval list \<Rightarrow> jsval list \<Rightarrow> jsval list" where
  "missing_required this headers row =
     map snd (filter (\<lambda>(i, header). required_of this header \<and> (at row i = Undef \<or> at row i = Str []))
                (indexed headers))"




subsection \<open>Example record types\<close>

text \<open>
  The record type of the scenario of the specification,
  \<^verbatim>\<open>Item{name: STRING required, qty: NUMBER required}\<close>, whose constructor passes its
  arguments to the factories, and a type with a foreign key to it. \<open>new_Item\<close> and
  \<open>new_Order\<close> are \<^verbatim>\<open>new Item(name, qty)\<close> and \<^verbatim>\<open>new Order(item)\<close>.
\<close>

definition Item :: cls where
  "Item = Cls ''Item'' [(''name'', STRING Undef (Bool True)), (''qty'', NUMBER Undef (Bool True))]"

definition new_Item :: "string \<Rightarrow> jsval \<Rightarrow> jsval \<Rightarrow> jsval" where
  "new_Item now name qty =
     Obj (Some Item)
       (GSTable_constructor now @ [(''name'', STRING name (Bool True)), (''qty'', NUMBER qty (Bool True))])"

definition Order :: cls where
  "Order = Cls ''Order'' [(''item'', FOREIGNKEY Undef (Class Item) (Bool True))]"

definition new_Order :: "string \<Rightarrow> jsval \<Rightarrow> jsval" where
  "new_Order now item =
     Obj (Some Order) (GSTable_constructor now @ [(''item'', FOREIGNKEY item (Class Item) (Bool True))])"

text \<open>The surroundings of the examples.\<close>

definition ev0 :: env where
  "ev0 = \<lparr>env_now = ''now'', env_user = Some ''u@x.org'', env_rnd = (\<lambda>k. 7),
            env_after_epoch = (\<lambda>d. True)\<rparr>"


text \<open>
  The header row of the sheet of \<^verbatim>\<open>Item\<close> and a spreadsheet whose only sheet is that of
  \<^verbatim>\<open>Item\<close>, with no data row.
\<close>

definition Item_headers :: "jsval list" where
  "Item_headers =
     [Str ''id'', Str ''created'', Str ''modified'', Str ''created_by'', Str ''last_modified_by'',
      Str ''name'', Str ''qty'']"


text \<open>The same spreadsheet with one stored \<^verbatim>\<open>Item\<close>.\<close>

definition Item_sheet_one :: spreadsheet where
  "Item_sheet_one =
     [''Item'' \<mapsto> [Item_headers,
                    [Str ''a1'', Date ''d1'', Date ''d1'', Str ''u@x.org'', Str ''u@x.org'', Str ''widget'', Num 5]]]"

text \<open>
  Two spreadsheets whose sheet of \<^verbatim>\<open>Item\<close> is out of step with the class: one made
  before the class had the column \<^verbatim>\<open>name\<close>, one with a column \<^verbatim>\<open>old1\<close> that the
  class has no more.
\<close>

definition Item_sheet_without_name :: spreadsheet where
  "Item_sheet_without_name =
     [''Item'' \<mapsto> [[Str ''id'', Str ''created'', Str ''modified'', Str ''created_by'',
                     Str ''last_modified_by'', Str ''qty'']]]"

definition Item_sheet_with_old :: spreadsheet where
  "Item_sheet_with_old =
     [''Item'' \<mapsto> [[Str ''id'', Str ''old1'', Str ''created'', Str ''modified'', Str ''created_by'',
                     Str ''last_modified_by'', Str ''name'', Str ''qty'']]]"

text \<open>
  The scenario of a removed entity: \<^verbatim>\<open>new Item("widget", 5)\<close> is persisted into an
  empty spreadsheet, removed, and persisted again. Each step gives the exception, if any,
  the entity and the spreadsheet.
\<close>

definition scenario_persisted :: "error option \<times> jsval \<times> spreadsheet" where
  "scenario_persisted = persist ev0 (new_Item ''t'' (Str ''widget'') (Num 5)) Map.empty"

definition scenario_removed :: "error option \<times> jsval \<times> spreadsheet" where
  "scenario_removed = remove ''t'' (fst (snd scenario_persisted)) (snd (snd scenario_persisted))"

definition scenario_persisted_again :: "error option \<times> jsval \<times> spreadsheet" where
  "scenario_persisted_again = persist ev0 (fst (snd scenario_removed)) (snd (snd scenario_removed))"

section \<open>Properties\<close>

subsection \<open>Identifier generation\<close>

lemma generateId_loop_length:
  assumes "\<forall>k. rnd k < length characters"
  shows "length (generateId_loop rnd len counter result) = length result + nat (len - counter)"
  using assms
proof (induction rnd len counter result rule: generateId_loop.induct)
  case (1 rnd len counter result)
  show ?case
  proof (cases "counter < len")
    case True
    have "length (charAt characters (rnd (nat counter))) = 1"
      using "1.prems" by (simp add: charAt_def)
    with True "1.IH" "1.prems" show ?thesis
      by (subst generateId_loop.simps) simp
  next
    case False
    then show ?thesis by (subst generateId_loop.simps) simp
  qed
qed

lemma characters_alnum: "\<forall>c\<in>set characters. alnum c"
  by (simp add: characters_def alnum_def)

lemma charAt_subset: "set (charAt s i) \<subseteq> set s"
  by (auto simp: charAt_def)

lemma generateId_loop_chars:
  "set (generateId_loop rnd len counter result) \<subseteq> set result \<union> set characters"
proof (induction rnd len counter result rule: generateId_loop.induct)
  case (1 rnd len counter result)
  show ?case
  proof (cases "counter < len")
    case True
    with "1.IH" charAt_subset [of characters "rnd (nat counter)"] show ?thesis
      by (subst generateId_loop.simps) auto
  next
    case False
    then show ?thesis by (subst generateId_loop.simps) simp
  qed
qed

text \<open>
  C7: when every draw of the random source is an index of \<^verbatim>\<open>characters\<close>,
  \<^verbatim>\<open>generateId(n)\<close> returns for \<open>n > 0\<close> a string of exactly \<open>n\<close> characters of
  \<^verbatim>\<open>[A-Za-z0-9]\<close>, and throws its error for \<open>n \<le> 0\<close>.
\<close>

theorem generateId_spec:
  assumes "\<forall>k. rnd k < length characters"
  shows "(0 < n \<longrightarrow> (\<exists>s. generateId rnd n = Inr s \<and> length s = nat n \<and> (\<forall>c\<in>set s. alnum c)))
       \<and> (n \<le> 0 \<longrightarrow> generateId rnd n = Inl (Error ''Length must be greater than 0''))"
proof -
  have "set (generateId_loop rnd n 0 []) \<subseteq> set characters"
    using generateId_loop_chars [of rnd n 0 "[]"] by simp
  then have "\<forall>c\<in>set (generateId_loop rnd n 0 []). alnum c"
    using characters_alnum by blast
  moreover have "length (generateId_loop rnd n 0 []) = nat n"
    using generateId_loop_length [OF assms, of n 0 "[]"] by simp
  ultimately show ?thesis
    by (simp add: generateId_def)
qed

theorem generateId_spec_witness:
  "(\<forall>k. (\<lambda>k. 7 :: nat) k < length characters)
   \<and> (\<exists>s. generateId (\<lambda>k. 7) 3 = Inr s \<and> length s = nat 3 \<and> (\<forall>c\<in>set s. alnum c))
   \<and> generateId (\<lambda>k. 7) (-1) = Inl (Error ''Length must be greater than 0'')"
  using generateId_spec [of "\<lambda>k. 7" 3] generateId_spec [of "\<lambda>k. 7" "-1"]
  by (simp add: characters_def)

subsection \<open>Objects as property lists\<close>

lemma map_of_assign: "map_of (assign ps k v) k' = (if k' = k then Some v else map_of ps k')"
  by (induction ps k v rule: assign.induct) auto

lemma map_of_foldl_assign_other:
  "\<forall>(i, cell)\<in>set cells. key i \<noteq> k \<Longrightarrow>
   map_of (foldl (\<lambda>data (index, cell). assign data (key index) cell) init cells) k = map_of init k"
  by (induction cells arbitrary: init) (auto simp: map_of_assign)

lemma at_in_set: "at xs i \<in> set xs \<or> at xs i = Undef"
  by (simp add: at_def)

subsection \<open>Rows of a grid as keyed records\<close>

lemma row_record_row_number:
  assumes "\<forall>h\<in>set headers. to_key h \<noteq> ''row_number''"
  shows "get_prop (row_record headers i row) ''row_number'' = Inr (Num (int i + 2))"
proof -
  have "\<forall>(index, cell)\<in>set (indexed row). to_key (at headers index) \<noteq> ''row_number''"
    using assms at_in_set [of headers] by fastforce
  then show ?thesis
    unfolding row_record_def
    by (simp add: map_of_foldl_assign_other [where key = "\<lambda>i. to_key (at headers i)"])
qed

text \<open>
  C10, as the code has it: \<^verbatim>\<open>fromRawDataToArrayOfObject\<close> leaves in the caller's array
  the rows after the header row; it returns one record for each of them, in order, built
  from the row starting with \<^verbatim>\<open>row_number\<close> = index + 2, and the record keeps that
  value when no header is named \<^verbatim>\<open>row_number\<close>.
\<close>

theorem fromRawDataToArrayOfObject_spec:
  assumes "fromRawDataToArrayOfObject (headers # rest) = (records, rawData')"
  shows "rawData' = rest \<and> length records = length rest
       \<and> (\<forall>i<length rest. records ! i = row_record headers i (rest ! i)
            \<and> ((\<forall>h\<in>set headers. to_key h \<noteq> ''row_number'')
                 \<longrightarrow> get_prop (records ! i) ''row_number'' = Inr (Num (int i + 2))))"
proof -
  from assms have r: "records = map (\<lambda>(row_id, row). row_record headers row_id row) (indexed rest)"
    and m: "rawData' = rest"
    by (auto simp: fromRawDataToArrayOfObject_def)
  have len: "length records = length rest"
    by (simp add: r indexed_def)
  have "records ! i = row_record headers i (rest ! i)" if "i < length rest" for i
    using that by (simp add: r indexed_def)
  then show ?thesis
    using m len row_record_row_number by simp
qed

theorem fromRawDataToArrayOfObject_spec_witness:
  "fromRawDataToArrayOfObject [[Str ''Name''], [Str ''Alice''], [Str ''Bob'']]
     = ([Obj None [(''row_number'', Num 2), (''Name'', Str ''Alice'')],
         Obj None [(''row_number'', Num 3), (''Name'', Str ''Bob'')]],
        [[Str ''Alice''], [Str ''Bob'']])
   \<and> list_all (\<lambda>h. to_key h \<noteq> ''row_number'') [Str ''Name'']
   \<and> get_prop (Obj None [(''row_number'', Num 3), (''Name'', Str ''Bob'')]) ''row_number'' = Inr (Num (int 1 + 2))"
proof -
  have e: "fromRawDataToArrayOfObject [[Str ''Name''], [Str ''Alice''], [Str ''Bob'']]
     = ([Obj None [(''row_number'', Num 2), (''Name'', Str ''Alice'')],
         Obj None [(''row_number'', Num 3), (''Name'', Str ''Bob'')]],
        [[Str ''Alice''], [Str ''Bob'']])"
    by (simp add: fromRawDataToArrayOfObject_def row_record_def indexed_def at_def upt_rec)
  show ?thesis
    using fromRawDataToArrayOfObject_spec [OF e] e by simp
qed

text \<open>
  A cell under a header named \<^verbatim>\<open>row_number\<close> replaces the number of the row: the
  record of the first data row of \<^verbatim>\<open>[["row_number"], ["x"]]\<close> has
  \<^verbatim>\<open>row_number\<close> \<^verbatim>\<open>"x"\<close>, not 2.
\<close>

theorem fromRawDataToArrayOfObject_counterexample:
  "get_prop (fst (fromRawDataToArrayOfObject [[Str ''row_number''], [Str ''x'']]) ! 0) ''row_number''
     \<noteq> Inr (Num (int 0 + 2))"
  by (simp add: fromRawDataToArrayOfObject_def row_record_def indexed_def at_def)

subsection \<open>Schema synchronisation\<close>
















text \<open>
  C3 at a sheet of \<^verbatim>\<open>Item\<close> whose header row is \<^verbatim>\<open>id, name\<close>:
  \<^verbatim>\<open>getTableInfo()\<close> appends the five missing names to the header row of the sheet and
  returns the two names it read before, since the value of
  \<^verbatim>\<open>headers.concat(new_props)\<close> is dropped.
\<close>

theorem getTableInfo_stale_headers:
  "fst (getTableInfo ''t'' Item [''Item'' \<mapsto> [[Str ''id'', Str ''name'']]]) = Inr (''Item'', [Str ''id'', Str ''name''])
   \<and> snd (getTableInfo ''t'' Item [''Item'' \<mapsto> [[Str ''id'', Str ''name'']]]) ''Item''
       = Some [[Str ''id'', Str ''name'', Str ''created'', Str ''modified'', Str ''created_by'',
                Str ''last_modified_by'', Str ''qty'']]"
  by code_simp

text \<open>
  C2 at a sheet of \<^verbatim>\<open>Item\<close> with the undeclared headers \<^verbatim>\<open>old1\<close> and
  \<^verbatim>\<open>old2\<close> in columns 2 and 3: \<^verbatim>\<open>getTableInfo()\<close> deletes column 2 and then
  column 3 of the sheet as the first deletion left it, so \<^verbatim>\<open>old2\<close> stays and the
  declared column \<^verbatim>\<open>created\<close> is deleted with its data.
\<close>

theorem getTableInfo_deletes_wrong_column:
  "snd (getTableInfo ''t'' Item
          [''Item'' \<mapsto> [[Str ''id'', Str ''old1'', Str ''old2'', Str ''created'', Str ''modified'',
                        Str ''created_by'', Str ''last_modified_by'', Str ''name'', Str ''qty''],
                       [Str ''a1'', Str ''x'', Str ''y'', Date ''d1'', Date ''d2'', Str ''u'', Str ''u'', Str ''widget'', Num 5]]]) ''Item''
     = Some [[Str ''id'', Str ''old2'', Str ''modified'', Str ''created_by'', Str ''last_modified_by'', Str ''name'', Str ''qty''],
             [Str ''a1'', Str ''y'', Date ''d2'', Str ''u'', Str ''u'', Str ''widget'', Num 5]]"
  by code_simp

subsection \<open>Foreign keys\<close>

text \<open>
  C8 at an empty spreadsheet: \<^verbatim>\<open>Item.findById("nope")\<close> returns \<^verbatim>\<open>undefined\<close>, the
  result of \<^verbatim>\<open>Array.prototype.find\<close>, and \<^verbatim>\<open>expand()\<close> on an order that refers to
  that identifier returns without an exception, with an own property \<^verbatim>\<open>item_\<close> that
  holds \<^verbatim>\<open>undefined\<close>, not \<^verbatim>\<open>null\<close>.
\<close>

theorem findById_missing_is_undefined:
  "fst (findById ''t'' Item (Str ''nope'') Map.empty) = Inr Undef
   \<and> fst (expand ''t'' (new_Order ''t'' (Str ''nope'')) Map.empty) = None
   \<and> hasOwnProperty (fst (snd (expand ''t'' (new_Order ''t'' (Str ''nope'')) Map.empty))) ''item_''
   \<and> get_prop (fst (snd (expand ''t'' (new_Order ''t'' (Str ''nope'')) Map.empty))) ''item_'' = Inr Undef"
  by code_simp

subsection \<open>Persisting\<close>










text \<open>
  When \<^verbatim>\<open>checkRequired\<close> returns, it returns the missing required headers of the
  specification.
\<close>

lemma checkRequired_loop_missing:
  "checkRequired_loop this ihs row = Inr wrongs \<Longrightarrow>
   wrongs = map snd (filter (\<lambda>(i, header). required_of this header \<and> (at row i = Undef \<or> at row i = Str [])) ihs)"
proof (induction ihs arbitrary: wrongs)
  case Nil
  then show ?case by simp
next
  case (Cons ih ihs)
  obtain i header where ih: "ih = (i, header)" by (cases ih)
  from Cons.prems ih obtain info req ws where
    a: "get_prop this (to_key header) = Inr info" and b: "get_prop info ''_required'' = Inr req"
    and c: "checkRequired_loop this ihs row = Inr ws"
    and d: "wrongs = (if truthy req \<and> (at row i = Undef \<or> at row i = Str []) then header # ws else ws)"
    by (auto simp: Let_def split: sum.splits)
  have "required_of this header = truthy req"
    using a b by (simp add: required_of_def)
  with Cons.IH [OF c] d ih show ?case by simp
qed

lemma checkRequired_missing:
  "checkRequired this headers row = Inr wrongs \<Longrightarrow> wrongs = missing_required this headers row"
  unfolding checkRequired_def missing_required_def by (rule checkRequired_loop_missing)



















text \<open>
  C4 at the scenario of the claim: \<^verbatim>\<open>new Item("widget", 5)\<close> is persisted into an empty
  spreadsheet (row 2), removed (\<^verbatim>\<open>row_number\<close> 0, the sheet keeps its header row
  only) and persisted again. The second \<^verbatim>\<open>persist()\<close> returns normally and keeps the
  identifier, but it appends no row: \<^verbatim>\<open>row_number\<close> is still 0 and the sheet still
  has its header row only.
\<close>

theorem persist_after_remove_writes_nothing:
  "fst scenario_persisted = None
   \<and> get_value (fst (snd scenario_persisted)) ''id'' = Inr (Str ''HHHHHHHH'')
   \<and> get_prop (fst (snd scenario_persisted)) ''row_number'' = Inr (Num 2)
   \<and> snd (snd scenario_persisted) ''Item''
       = Some [Item_headers,
               [Str ''HHHHHHHH'', Date ''now'', Date ''now'', Str ''u@x.org'', Str ''u@x.org'',
                Str ''widget'', Num 5]]
   \<and> fst scenario_removed = None
   \<and> get_prop (fst (snd scenario_removed)) ''row_number'' = Inr (Num 0)
   \<and> snd (snd scenario_removed) ''Item'' = Some [Item_headers]
   \<and> fst scenario_persisted_again = None
   \<and> get_value (fst (snd scenario_persisted_again)) ''id'' = Inr (Str ''HHHHHHHH'')
   \<and> get_prop (fst (snd scenario_persisted_again)) ''row_number'' = Inr (Num 0)
   \<and> snd (snd scenario_persisted_again) ''Item'' = Some [Item_headers]"
  by code_simp

text \<open>
  C1 at sheets out of step with the class. On the sheet made before \<^verbatim>\<open>Item\<close> had the
  column \<^verbatim>\<open>name\<close>, \<^verbatim>\<open>persist()\<close> of \<^verbatim>\<open>new Item("", 5)\<close> checks the row against
  the six headers that the first \<^verbatim>\<open>getTableInfo()\<close> returned, while the row has the
  seven values of the header row as synchronised: it returns without an error and
  appends the row, with the empty string under the required \<^verbatim>\<open>name\<close>, which is the
  one missing required column of that row. On the sheet with the old column
  \<^verbatim>\<open>old1\<close> the check reads \<^verbatim>\<open>this["old1"]._required\<close> and the same call ends in a
  TypeError, not in the error that names \<^verbatim>\<open>name\<close>.
\<close>

theorem persist_misses_required_column:
  "fst (persist ev0 (new_Item ''t'' (Str []) (Num 5)) Item_sheet_without_name) = None
   \<and> snd (snd (persist ev0 (new_Item ''t'' (Str []) (Num 5)) Item_sheet_without_name)) ''Item''
       = Some [[Str ''id'', Str ''created'', Str ''modified'', Str ''created_by'', Str ''last_modified_by'',
                Str ''qty'', Str ''name''],
               [Str ''HHHHHHHH'', Date ''now'', Date ''now'', Str ''u@x.org'', Str ''u@x.org'', Num 5, Str []]]
   \<and> missing_required (fst (snd (persist ev0 (new_Item ''t'' (Str []) (Num 5)) Item_sheet_without_name)))
        [Str ''id'', Str ''created'', Str ''modified'', Str ''created_by'', Str ''last_modified_by'',
         Str ''qty'', Str ''name'']
        [Str ''HHHHHHHH'', Date ''now'', Date ''now'', Str ''u@x.org'', Str ''u@x.org'', Num 5, Str []]
       = [Str ''name'']
   \<and> fst (persist ev0 (new_Item ''t'' (Str []) (Num 5)) Item_sheet_with_old) = Some TypeError"
  by code_simp

subsection \<open>Filtering\<close>

lemma every_key_non_functions:
  assumes "\<forall>cnd\<in>snd ` set conditions. \<not> is_function cnd"
  shows "every_key conditions entity keys = Inr True"
proof (induction keys)
  case Nil
  then show ?case by simp
next
  case (Cons key keys)
  show ?case
  proof (cases "map_of conditions key")
    case None
    with Cons show ?thesis by simp
  next
    case (Some cnd)
    then have "(key, cnd) \<in> set conditions" by (rule map_of_SomeD)
    then have "\<not> is_function cnd" using assms by force
    with Some Cons show ?thesis by simp
  qed
qed

lemma own_order_empty: "own_order ps = [] \<longleftrightarrow> ps = []"
proof
  assume e: "own_order ps = []"
  then have "filter (\<lambda>p. array_index (fst p)) ps = []" and "filter (\<lambda>p. \<not> array_index (fst p)) ps = []"
    by (auto simp: own_order_def dest: arg_cong [where f = length])
  then show "ps = []"
    by (cases ps) (auto split: if_splits)
next
  assume "ps = []"
  then show "own_order ps = []" by (simp add: own_order_def)
qed

lemma filter_throwing_all: "\<forall>x\<in>set xs. p x = Inr True \<Longrightarrow> filter_throwing p xs = Inr xs"
  by (induction xs) auto

text \<open>
  C6: \<^verbatim>\<open>filterByConsitions\<close> with no condition returns the empty list and leaves the
  spreadsheet alone, whatever it holds; with at least one condition, none of them a
  function, it is \<^verbatim>\<open>findAll()\<close>: the same entities in the same order, or the same
  exception, and the same spreadsheet.
\<close>

theorem filterByConsitions_spec:
  "filterByConsitions now c [] ss = (Inr [], ss)
   \<and> (conditions \<noteq> [] \<longrightarrow> (\<forall>cnd\<in>snd ` set conditions. \<not> is_function cnd)
        \<longrightarrow> filterByConsitions now c conditions ss = findAll now c ss)"
proof -
  have "filterByConsitions now c conditions ss = findAll now c ss"
    if ne: "conditions \<noteq> []" and nf: "\<forall>cnd\<in>snd ` set conditions. \<not> is_function cnd"
  proof -
    obtain r ss' where f: "findAll now c ss = (r, ss')" by (cases "findAll now c ss")
    show ?thesis
    proof (cases r)
      case (Inl e)
      with f ne show ?thesis by (simp add: filterByConsitions_def own_order_empty)
    next
      case (Inr entities)
      have "filter_throwing (\<lambda>entity. every_key conditions entity (map fst (own_order conditions))) entities
          = Inr entities"
        using every_key_non_functions [OF nf] by (simp add: filter_throwing_all)
      with f Inr ne show ?thesis by (simp add: filterByConsitions_def own_order_empty)
    qed
  qed
  then show ?thesis by (simp add: filterByConsitions_def own_order_def)
qed

theorem filterByConsitions_spec_witness:
  "filterByConsitions ''t'' Item [] Item_sheet_one = (Inr [], Item_sheet_one)
   \<and> [(''name'', Val (Str ''x''))] \<noteq> []
   \<and> list_all (\<lambda>cnd. \<not> is_function cnd) (map snd [(''name'', Val (Str ''x''))])
   \<and> fst (findAll ''t'' Item Item_sheet_one) \<noteq> Inr []
   \<and> filterByConsitions ''t'' Item [(''name'', Val (Str ''x''))] Item_sheet_one = findAll ''t'' Item Item_sheet_one"
proof -
  have ne: "fst (findAll ''t'' Item Item_sheet_one) \<noteq> Inr []" by code_simp
  show ?thesis
    using filterByConsitions_spec [of "''t''" Item Item_sheet_one "[(''name'', Val (Str ''x''))]"] ne
    by simp
qed

subsection \<open>Persisting: the examples\<close>



end
